theory Spec2Isabelle
  imports Main
begin

section \<open>Python values\<close>

text \<open>
  The values that travel through the pipeline: the cells of a table read by pandas, the
  JSON documents returned by \<open>json.loads\<close> and the rows handed to the output sink.
  A character stands for one code point in the range U+0000 .. U+00FF. A float other
  than NaN is carried as the text Python prints for it (\<open>repr\<close>); NaN, which pandas uses
  for a missing cell, has a constructor of its own. A dict is an association list in
  insertion order; Python keeps the keys of a dict distinct.
\<close>

datatype pyval =
    PNone
  | PNaN
  | PBool bool
  | PInt int
  | PFloat string
  | PStr string
  | PList "pyval list"
  | PDict "(string \<times> pyval) list"

type_synonym pydict = "(string \<times> pyval) list"

fun is_dict :: "pyval \<Rightarrow> bool" where
  "is_dict (PDict _) = True"
| "is_dict _ = False"

fun is_list :: "pyval \<Rightarrow> bool" where
  "is_list (PList _) = True"
| "is_list _ = False"

text \<open>\<open>d[k] = v\<close>: an existing key keeps its position, a new key goes to the end.\<close>

fun dict_set :: "(string \<times> 'v) list \<Rightarrow> string \<Rightarrow> 'v \<Rightarrow> (string \<times> 'v) list" where
  "dict_set [] k v = [(k, v)]"
| "dict_set ((k', v') # d) k v =
     (if k' = k then (k', v) # d else (k', v') # dict_set d k v)"

text \<open>\<open>d.update(other)\<close>, and \<open>{**d, **other}\<close> on a copy of \<open>d\<close>.\<close>

fun dict_update :: "(string \<times> 'v) list \<Rightarrow> (string \<times> 'v) list \<Rightarrow> (string \<times> 'v) list" where
  "dict_update d [] = d"
| "dict_update d ((k, v) # kvs) = dict_update (dict_set d k v) kvs"

text \<open>\<open>d.get(k)\<close>.\<close>

definition dict_get :: "(string \<times> 'v) list \<Rightarrow> string \<Rightarrow> 'v option" where
  "dict_get d k = map_of d k"

text \<open>Truthiness, as \<open>if x:\<close> tests it.\<close>

fun truthy :: "pyval \<Rightarrow> bool" where
  "truthy PNone = False"
| "truthy PNaN = True"
| "truthy (PBool b) = b"
| "truthy (PInt i) = (i \<noteq> 0)"
| "truthy (PFloat s) = (s \<noteq> ''0.0'' \<and> s \<noteq> ''-0.0'')"
| "truthy (PStr s) = (s \<noteq> [])"
| "truthy (PList xs) = (xs \<noteq> [])"
| "truthy (PDict kvs) = (kvs \<noteq> [])"

subsection \<open>\<open>str\<close> and \<open>repr\<close>\<close>

definition digit_char :: "nat \<Rightarrow> char" where
  "digit_char d = char_of (48 + d)"

fun show_nat :: "nat \<Rightarrow> string" where
  "show_nat n =
     (if n < 10 then [digit_char n] else show_nat (n div 10) @ [digit_char (n mod 10)])"

declare show_nat.simps [simp del]

definition show_int :: "int \<Rightarrow> string" where
  "show_int i = (if i < 0 then CHR ''-'' # show_nat (nat (- i)) else show_nat (nat i))"

text \<open>\<open>sep.join(xs)\<close>.\<close>

fun join :: "string \<Rightarrow> string list \<Rightarrow> string" where
  "join sep [] = []"
| "join sep [x] = x"
| "join sep (x # y # ys) = x @ sep @ join sep (y # ys)"

definition hex_char :: "nat \<Rightarrow> char" where
  "hex_char d = (if d < 10 then char_of (48 + d) else char_of (87 + d))"

text \<open>
  \<open>str.isprintable\<close> on one code point below 256: the ASCII range from the space to the
  tilde, and Latin-1 from U+00A1 on without the soft hyphen U+00AD.
\<close>

definition py_isprintable :: "char \<Rightarrow> bool" where
  "py_isprintable c =
     (let n = of_char c :: nat in (32 \<le> n \<and> n < 127) \<or> (161 \<le> n \<and> n \<noteq> 173))"

definition repr_char :: "char \<Rightarrow> char \<Rightarrow> string" where
  "repr_char quote c =
     (if c = quote \<or> c = CHR 0x5C then [CHR 0x5C, c]
      else if c = CHR 0x09 then [CHR 0x5C, CHR ''t'']
      else if c = CHR 0x0A then [CHR 0x5C, CHR ''n'']
      else if c = CHR 0x0D then [CHR 0x5C, CHR ''r'']
      else if py_isprintable c then [c]
      else [CHR 0x5C, CHR ''x'', hex_char ((of_char c :: nat) div 16),
            hex_char ((of_char c :: nat) mod 16)])"

text \<open>
  \<open>repr\<close> of a string: double quotes when the string has a single quote and no double
  quote, single quotes otherwise.
\<close>

definition repr_str :: "string \<Rightarrow> string" where
  "repr_str s =
     (let quote = (if CHR 0x27 \<in> set s \<and> CHR 0x22 \<notin> set s then CHR 0x22 else CHR 0x27)
      in [quote] @ concat (map (repr_char quote) s) @ [quote])"

fun py_repr :: "pyval \<Rightarrow> string"
and py_repr_list :: "pyval list \<Rightarrow> string list"
and py_repr_items :: "(string \<times> pyval) list \<Rightarrow> string list"
where
  "py_repr PNone = ''None''"
| "py_repr PNaN = ''nan''"
| "py_repr (PBool b) = (if b then ''True'' else ''False'')"
| "py_repr (PInt i) = show_int i"
| "py_repr (PFloat s) = s"
| "py_repr (PStr s) = repr_str s"
| "py_repr (PList xs) = ''['' @ join '', '' (py_repr_list xs) @ '']''"
| "py_repr (PDict kvs) = ''{'' @ join '', '' (py_repr_items kvs) @ ''}''"
| "py_repr_list [] = []"
| "py_repr_list (x # xs) = py_repr x # py_repr_list xs"
| "py_repr_items [] = []"
| "py_repr_items ((k, v) # kvs) = (repr_str k @ '': '' @ py_repr v) # py_repr_items kvs"

text \<open>\<open>str(v)\<close> differs from \<open>repr(v)\<close> on a string only.\<close>

fun py_str :: "pyval \<Rightarrow> string" where
  "py_str (PStr s) = s"
| "py_str v = py_repr v"

section \<open>The result flattener (utils.py)\<close>

text \<open>
  \<open>flatten_json_result(data, parent_key, sep)\<close>. The loop over \<open>data.items()\<close> is
  \<open>flatten_items\<close>, whose last argument is the dict \<open>items\<close> built so far.
\<close>

fun flatten_json_result :: "pyval \<Rightarrow> string \<Rightarrow> string \<Rightarrow> pydict"
and flatten_items :: "(string \<times> pyval) list \<Rightarrow> string \<Rightarrow> string \<Rightarrow> pydict \<Rightarrow> pydict"
where
  "flatten_json_result (PDict kvs) parent_key sep = flatten_items kvs parent_key sep []"
| "flatten_json_result v parent_key sep =
     [(if parent_key \<noteq> [] then parent_key else ''value'', v)]"
| "flatten_items [] parent_key sep items = items"
| "flatten_items ((k, v) # kvs) parent_key sep items =
     (let new_key = (if parent_key \<noteq> [] then parent_key @ sep @ k else k) in
      flatten_items kvs parent_key sep
       (case v of
          PDict d \<Rightarrow> dict_update items (flatten_json_result v new_key sep)
        | PList xs \<Rightarrow> dict_set items new_key (PStr (join '', '' (map py_str xs)))
        | _ \<Rightarrow> dict_set items new_key v))"

text \<open>A mapping is flat when none of its values is a dict or a list.\<close>

definition flat_dict :: "pydict \<Rightarrow> bool" where
  "flat_dict m = list_all (\<lambda>(k, v). \<not> is_dict v \<and> \<not> is_list v) m"

section \<open>Properties of the flattener\<close>

lemma dict_set_fresh: "k \<notin> fst ` set d \<Longrightarrow> dict_set d k v = d @ [(k, v)]"
  by (induction d) auto

lemma dict_update_fresh:
  "distinct (map fst (d @ kvs)) \<Longrightarrow> dict_update d kvs = d @ kvs"
proof (induction kvs arbitrary: d)
  case Nil
  then show ?case by simp
next
  case (Cons kv kvs)
  obtain k v where kv: "kv = (k, v)" by (cases kv)
  from Cons.prems kv have fresh: "k \<notin> fst ` set d" by auto
  from Cons.prems kv have "distinct (map fst ((d @ [(k, v)]) @ kvs))" by auto
  from Cons.IH [OF this] fresh kv show ?case by (simp add: dict_set_fresh)
qed

lemma flatten_items_flat:
  "flat_dict kvs \<Longrightarrow> flatten_items kvs [] sep items = dict_update items kvs"
proof (induction kvs arbitrary: items)
  case Nil
  then show ?case by simp
next
  case (Cons kv kvs)
  obtain k v where kv: "kv = (k, v)" by (cases kv)
  from Cons.prems kv have v: "\<not> is_dict v" "\<not> is_list v" and rest: "flat_dict kvs"
    by (simp_all add: flat_dict_def)
  from v have "(case v of PDict d \<Rightarrow> dict_update items (flatten_json_result v k sep)
        | PList xs \<Rightarrow> dict_set items k (PStr (join '', '' (map py_str xs)))
        | _ \<Rightarrow> dict_set items k v) = dict_set items k v"
    by (cases v) simp_all
  with Cons.IH [OF rest] kv show ?case by simp
qed

lemma flatten_flat_dict:
  assumes "distinct (map fst m)" and "flat_dict m"
  shows "flatten_json_result (PDict m) [] sep = m"
  using assms dict_update_fresh [of "[]" m] by (simp add: flatten_items_flat)

lemma flatten_non_dict:
  "\<not> is_dict v \<Longrightarrow> flatten_json_result v [] sep = [(''value'', v)]"
  by (cases v) simp_all

lemma flatten_example:
  "flatten_json_result
     (PDict [(''a'', PInt 1),
             (''b'', PDict [(''c'', PInt 2), (''d'', PList [PInt 3, PInt 4])])]) [] ''_''
   = [(''a'', PInt 1), (''b_c'', PInt 2), (''b_d'', PStr ''3, 4'')]"
  by code_simp

text \<open>
  Claim C7. The flattener maps \<open>{"a":1,"b":{"c":2,"d":[3,4]}}\<close> to
  \<open>{"a":1,"b_c":2,"b_d":"3, 4"}\<close>; on every mapping that is already flat (no dict and no
  list among its values) it returns the mapping itself, so flattening it again changes
  nothing; and every value that is not a mapping comes back wrapped under the key
  \<open>value\<close>. Being a function of its arguments, the flattener is deterministic.
\<close>

theorem flatten_json_result_spec:
  "flatten_json_result
     (PDict [(''a'', PInt 1),
             (''b'', PDict [(''c'', PInt 2), (''d'', PList [PInt 3, PInt 4])])]) [] ''_''
   = [(''a'', PInt 1), (''b_c'', PInt 2), (''b_d'', PStr ''3, 4'')]
   \<and> (\<forall>m. distinct (map fst m) \<and> flat_dict m \<longrightarrow>
          flatten_json_result (PDict m) [] ''_'' = m
          \<and> flatten_json_result (PDict (flatten_json_result (PDict m) [] ''_'')) [] ''_''
              = flatten_json_result (PDict m) [] ''_'')
   \<and> (\<forall>v. \<not> is_dict v \<longrightarrow> flatten_json_result v [] ''_'' = [(''value'', v)])"
proof (intro conjI allI impI)
  show "flatten_json_result
     (PDict [(''a'', PInt 1),
             (''b'', PDict [(''c'', PInt 2), (''d'', PList [PInt 3, PInt 4])])]) [] ''_''
   = [(''a'', PInt 1), (''b_c'', PInt 2), (''b_d'', PStr ''3, 4'')]"
    by (rule flatten_example)
next
  fix m :: pydict
  assume a: "distinct (map fst m) \<and> flat_dict m"
  then have e: "flatten_json_result (PDict m) [] ''_'' = m"
    using flatten_flat_dict [of m "''_''"] by blast
  show "flatten_json_result (PDict m) [] ''_'' = m" by (rule e)
  show "flatten_json_result (PDict (flatten_json_result (PDict m) [] ''_'')) [] ''_''
          = flatten_json_result (PDict m) [] ''_''"
    by (simp only: e)
next
  fix v
  assume "\<not> is_dict v"
  then show "flatten_json_result v [] ''_'' = [(''value'', v)]"
    by (rule flatten_non_dict)
qed

theorem flatten_json_result_spec_witness:
  "distinct (map fst [(''a'', PInt 1), (''b'', PStr ''x'')])
   \<and> flat_dict [(''a'', PInt 1), (''b'', PStr ''x'')]
   \<and> flatten_json_result (PDict [(''a'', PInt 1), (''b'', PStr ''x'')]) [] ''_''
       = [(''a'', PInt 1), (''b'', PStr ''x'')]
   \<and> \<not> is_dict (PList [PInt 3, PInt 4])
   \<and> flatten_json_result (PList [PInt 3, PInt 4]) [] ''_''
       = [(''value'', PList [PInt 3, PInt 4])]"
proof -
  have d: "distinct (map fst [(''a'', PInt 1), (''b'', PStr ''x'')])" by simp
  have f: "flat_dict [(''a'', PInt 1), (''b'', PStr ''x'')]" by (simp add: flat_dict_def)
  have n: "\<not> is_dict (PList [PInt 3, PInt 4])" by simp
  have m: "flatten_json_result (PDict [(''a'', PInt 1), (''b'', PStr ''x'')]) [] ''_''
       = [(''a'', PInt 1), (''b'', PStr ''x'')]"
    using flatten_json_result_spec [THEN conjunct2, THEN conjunct1, rule_format,
        of "[(''a'', PInt 1), (''b'', PStr ''x'')]"] d f by blast
  have w: "flatten_json_result (PList [PInt 3, PInt 4]) [] ''_''
       = [(''value'', PList [PInt 3, PInt 4])]"
    using flatten_json_result_spec [THEN conjunct2, THEN conjunct2, rule_format,
        of "PList [PInt 3, PInt 4]"] n by blast
  from d f m n w show ?thesis by (intro conjI)
qed

end
